theory Spec2Isabelle
  imports Complex_Main "HOL-Library.Sublist"
begin

section \<open>Numbers\<close>

text \<open>
  The program is TypeScript; every \<^verbatim>\<open>number\<close> is modelled as a \<^typ>\<open>real\<close> and every
  operation as the exact operation on reals, so rounding is outside the model. A division
  agrees with the program only where the divisor is not zero (JavaScript gives an infinity or
  NaN there, HOL gives 0): the theorems below carry the non-zero divisor as a hypothesis, or
  state an equation whose two sides contain the same quotient, or evaluate the model where
  every divisor is non-zero.
  A value that may be \<^verbatim>\<open>undefined\<close> is an \<^typ>\<open>'a option\<close>, and an exception is a value
  of the type \<open>error\<close>.
\<close>

datatype error =
    TypeError               \<comment> \<open>reading a property or an element of \<^verbatim>\<open>undefined\<close>\<close>
  | DegenerateGreatCircle   \<comment> \<open>the \<^verbatim>\<open>Error\<close> thrown by projectPointToGreatCircle\<close>

text \<open>The remainder operator \<^verbatim>\<open>a % n\<close>: the quotient is truncated toward zero.\<close>

definition js_rem :: "real \<Rightarrow> real \<Rightarrow> real" where
  "js_rem a n = a - n * of_int (if 0 \<le> a / n then floor (a / n) else ceiling (a / n))"

text \<open>\<^verbatim>\<open>Math.atan2(y, x)\<close>, the angle of the point \<open>(x, y)\<close> in \<open>(-\<pi>, \<pi>]\<close>, 0 at the origin.\<close>

definition atan2 :: "real \<Rightarrow> real \<Rightarrow> real" where
  "atan2 y x =
     (if 0 < x then arctan (y / x)
      else if x < 0 then (if 0 \<le> y then arctan (y / x) + pi else arctan (y / x) - pi)
      else if 0 < y then pi / 2
      else if y < 0 then - (pi / 2)
      else 0)"

text \<open>Truthiness of a number that may be undefined: \<^verbatim>\<open>undefined\<close> and 0 are falsy.\<close>

definition truthy :: "real option \<Rightarrow> bool" where
  "truthy v = (case v of None \<Rightarrow> False | Some x \<Rightarrow> x \<noteq> 0)"

section \<open>Geodesy kernel\<close>

definition degreesToRadians :: "real \<Rightarrow> real" where
  "degreesToRadians degrees = degrees * pi / 180"

definition radiansToDegrees :: "real \<Rightarrow> real" where
  "radiansToDegrees radians = radians * 180 / pi"

definition latLonToCartesian :: "real \<Rightarrow> real \<Rightarrow> real \<times> real \<times> real" where
  "latLonToCartesian lat lon =
     (let latRad = degreesToRadians lat;
          lonRad = degreesToRadians lon;
          x = cos latRad * cos lonRad;
          y = cos latRad * sin lonRad;
          z = sin latRad
      in (x, y, z))"

definition cartesianToLatLon :: "real \<Rightarrow> real \<Rightarrow> real \<Rightarrow> real \<times> real" where
  "cartesianToLatLon x y z =
     (let latRad = atan2 z (sqrt (x * x + y * y));
          lonRad = atan2 y x
      in (radiansToDegrees latRad, radiansToDegrees lonRad))"

text \<open>
  The arrays \<^verbatim>\<open>A\<close>, \<^verbatim>\<open>B\<close>, \<^verbatim>\<open>C\<close>, \<^verbatim>\<open>n\<close>, \<^verbatim>\<open>Cprime\<close> are triples, their elements are
  named by index. The result is \<open>Inl\<close> of the error thrown, or \<open>Inr\<close> of the pair
  \<^verbatim>\<open>[latitude, longitude]\<close> returned.
\<close>

definition projectPointToGreatCircle ::
  "real \<Rightarrow> real \<Rightarrow> real \<Rightarrow> real \<Rightarrow> real \<Rightarrow> real \<Rightarrow> error + real \<times> real" where
  "projectPointToGreatCircle latA lonA latB lonB latC lonC =
     (case latLonToCartesian latA lonA of (A0, A1, A2) \<Rightarrow>
      case latLonToCartesian latB lonB of (B0, B1, B2) \<Rightarrow>
      case latLonToCartesian latC lonC of (C0, C1, C2) \<Rightarrow>
      let n0 = A1 * B2 - A2 * B1;
          n1 = A2 * B0 - A0 * B2;
          n2 = A0 * B1 - A1 * B0;
          dotCN = C0 * n0 + C1 * n1 + C2 * n2;
          nNormSq = n0 * n0 + n1 * n1 + n2 * n2
      in if nNormSq < 1 / 10 ^ 12 then Inl DegenerateGreatCircle
         else
           let Cprime0 = C0 - (dotCN / nNormSq) * n0;
               Cprime1 = C1 - (dotCN / nNormSq) * n1;
               Cprime2 = C2 - (dotCN / nNormSq) * n2;
               norm = sqrt (Cprime0 * Cprime0 + Cprime1 * Cprime1 + Cprime2 * Cprime2)
           in Inr (cartesianToLatLon (Cprime0 / norm) (Cprime1 / norm) (Cprime2 / norm)))"

text \<open>
  The vector operations the comments of \<^verbatim>\<open>projectPointToGreatCircle\<close> name: the cross
  product \<open>A \<times> B\<close>, the dot product, and the projection \<open>C - ((C \<cdot> n) / |n|\<^sup>2) n\<close> scaled to
  length one.
\<close>

type_synonym vec3 = "real \<times> real \<times> real"

definition cross3 :: "vec3 \<Rightarrow> vec3 \<Rightarrow> vec3" where
  "cross3 a b =
     (case a of (a0, a1, a2) \<Rightarrow> case b of (b0, b1, b2) \<Rightarrow>
        (a1 * b2 - a2 * b1, a2 * b0 - a0 * b2, a0 * b1 - a1 * b0))"

definition dot3 :: "vec3 \<Rightarrow> vec3 \<Rightarrow> real" where
  "dot3 a b =
     (case a of (a0, a1, a2) \<Rightarrow> case b of (b0, b1, b2) \<Rightarrow> a0 * b0 + a1 * b1 + a2 * b2)"

definition scale3 :: "real \<Rightarrow> vec3 \<Rightarrow> vec3" where
  "scale3 k a = (case a of (a0, a1, a2) \<Rightarrow> (k * a0, k * a1, k * a2))"

definition sub3 :: "vec3 \<Rightarrow> vec3 \<Rightarrow> vec3" where
  "sub3 a b =
     (case a of (a0, a1, a2) \<Rightarrow> case b of (b0, b1, b2) \<Rightarrow> (a0 - b0, a1 - b1, a2 - b2))"

definition unit3 :: "vec3 \<Rightarrow> vec3" where
  "unit3 a = (case a of (a0, a1, a2) \<Rightarrow>
     (a0 / sqrt (dot3 a a), a1 / sqrt (dot3 a a), a2 / sqrt (dot3 a a)))"

definition offNormal :: "vec3 \<Rightarrow> vec3 \<Rightarrow> vec3" where
  "offNormal n c = unit3 (sub3 c (scale3 (dot3 c n / dot3 n n) n))"

section \<open>Zoom and camera height\<close>

definition EARTH_RADIUS :: real where
  "EARTH_RADIUS = 6378137"

text \<open>The private \<^verbatim>\<open>degreesToRadians\<close> of the class \<^verbatim>\<open>MapboxZoomHeightConverter\<close>.\<close>

definition Converter_degreesToRadians :: "real \<Rightarrow> real" where
  "Converter_degreesToRadians degrees = degrees * (pi / 180)"

definition zoomToHeight :: "real \<Rightarrow> real \<Rightarrow> real" where
  "zoomToHeight zoom pitch =
     (let zoomFactor = 2 powr zoom;
          height = EARTH_RADIUS / zoomFactor
      in if pitch = 0 then height else height / cos (Converter_degreesToRadians pitch))"

definition heightToZoom :: "real \<Rightarrow> real \<Rightarrow> real" where
  "heightToZoom height pitch =
     (let adjustedHeight =
            (if pitch = 0 then height else height * cos (Converter_degreesToRadians pitch))
      in log 2 (EARTH_RADIUS / adjustedHeight))"

section \<open>Initial heading\<close>

text \<open>A GeoJSON \<^verbatim>\<open>Position\<close> \<^verbatim>\<open>[lng, lat]\<close> is a pair: element 0 is \<open>fst\<close>, element 1 is \<open>snd\<close>.\<close>

type_synonym Position = "real \<times> real"

definition getBearing :: "Position \<Rightarrow> Position \<Rightarrow> real" where
  "getBearing p1 p2 =
     (let rad = pi / 180;
          y = sin ((fst p2 - fst p1) * rad) * cos (snd p2 * rad);
          x = cos (snd p1 * rad) * sin (snd p2 * rad) -
              sin (snd p1 * rad) * cos (snd p2 * rad) * cos ((fst p2 - fst p1) * rad)
      in js_rem (atan2 y x * (180 / pi) + 360) 360)"

section \<open>Camera projector\<close>

record GeoPoint =
  lng :: real
  lat :: real

definition lerp :: "real \<Rightarrow> real \<Rightarrow> real \<Rightarrow> real" where
  "lerp start end' amt = (1 - amt) * start + amt * end'"

text \<open>
  The module-level variable \<^verbatim>\<open>previousCameraPosition\<close> is passed in and returned: the
  function yields the position it returns together with the new content of the variable.
\<close>

definition computeCameraPosition ::
  "real \<Rightarrow> real \<Rightarrow> GeoPoint \<Rightarrow> real \<Rightarrow> bool \<Rightarrow> GeoPoint option \<Rightarrow> GeoPoint \<times> GeoPoint option" where
  "computeCameraPosition pitch bearing targetPosition altitude smooth previousCameraPosition =
     (let bearingInRadian = bearing * (pi / 180);
          pitchInRadian = (90 - pitch) * (pi / 180);
          lngDiff = ((altitude / tan pitchInRadian) * sin (- bearingInRadian)) /
                    (111320 * cos (lat targetPosition * (pi / 180)));
          latDiff = ((altitude / tan pitchInRadian) * cos (- bearingInRadian)) / 111320;
          correctedLng = lng targetPosition + lngDiff;
          correctedLat = lat targetPosition - latDiff;
          newCameraPosition = \<lparr>lng = correctedLng, lat = correctedLat\<rparr>;
          newCameraPosition' =
            (if smooth then
               (case previousCameraPosition of
                  None \<Rightarrow> newCameraPosition
                | Some previous \<Rightarrow>
                    \<lparr>lng = lerp (lng newCameraPosition) (lng previous) 0.95,
                     lat = lerp (lat newCameraPosition) (lat previous) 0.95\<rparr>)
             else newCameraPosition)
      in (newCameraPosition', Some newCameraPosition'))"

subsection \<open>The unsmoothed position\<close>

text \<open>
  The unsmoothed position, written with the quantities the description names: the offset
  magnitude and the two metres-per-degree conversions.
\<close>

definition offsetMagnitude :: "real \<Rightarrow> real \<Rightarrow> real" where
  "offsetMagnitude pitch altitude = altitude / tan ((90 - pitch) * pi / 180)"

definition rawCameraPosition :: "real \<Rightarrow> real \<Rightarrow> GeoPoint \<Rightarrow> real \<Rightarrow> GeoPoint" where
  "rawCameraPosition pitch bearing targetPosition altitude =
     \<lparr>lng = lng targetPosition +
              offsetMagnitude pitch altitude * sin (- (bearing * pi / 180)) /
              (111320 * cos (lat targetPosition * pi / 180)),
      lat = lat targetPosition -
              offsetMagnitude pitch altitude * cos (- (bearing * pi / 180)) / 111320\<rparr>"

section \<open>Shortest turn\<close>

definition normalizeBearing :: "real \<Rightarrow> real \<Rightarrow> real" where
  "normalizeBearing currentBearing targetBearing =
     (let currentBearing' = js_rem (js_rem currentBearing 360 + 360) 360;
          targetBearing' = js_rem (js_rem targetBearing 360 + 360) 360;
          diff1 = js_rem (targetBearing' - currentBearing' + 360) 360;
          diff2 = diff1 - 360
      in if \<bar>diff1\<bar> \<le> \<bar>diff2\<bar> then diff1 else diff2)"

section \<open>Fly-in driver\<close>

text \<open>
  Modelled from the spec: \<^verbatim>\<open>d3.easeCubicOut\<close> belongs to the d3 library and is not in the
  repository; the spec calls it a cubic ease-out, "an interpolation curve that starts fast and
  decelerates into the endpoint". This is d3-ease's \<^verbatim>\<open>--t * t * t + 1\<close>.
\<close>

definition easeCubicOut :: "real \<Rightarrow> real" where
  "easeCubicOut t = (t - 1) * (t - 1) * (t - 1) + 1"

text \<open>
  What one call of the closure \<^verbatim>\<open>frame\<close> of \<^verbatim>\<open>flyInAndRotate\<close> does: the timestamp it
  was called with, the variable \<^verbatim>\<open>start\<close> after the call, the clamped phase, the pitch,
  bearing, position and altitude handed to the map, the content of
  \<^verbatim>\<open>previousCameraPosition\<close> after the call, and the object passed to \<^verbatim>\<open>resolve\<close>, if
  the call resolves the promise, as the pair (bearing, altitude).
\<close>

record FlyInFrame =
  frame_time :: real
  frame_start :: real
  frame_animationPhase :: real
  frame_pitch :: real
  frame_bearing :: real
  frame_position :: GeoPoint
  frame_altitude :: real
  frame_cache :: "GeoPoint option"
  frame_resolved :: "(real \<times> real) option"

text \<open>
  The variable \<^verbatim>\<open>start\<close> is undefined until the first call; \<^verbatim>\<open>!start\<close> also holds when
  it is 0.
\<close>

definition flyInAndRotate_frame ::
  "GeoPoint \<Rightarrow> real \<Rightarrow> real \<Rightarrow> real \<Rightarrow> real \<Rightarrow> real \<Rightarrow> real \<Rightarrow> real \<Rightarrow>
   real option \<Rightarrow> GeoPoint option \<Rightarrow> real \<Rightarrow> FlyInFrame" where
  "flyInAndRotate_frame targetLngLat duration startAltitude endAltitude startBearing endBearing
     startPitch endPitch start previousCameraPosition time =
     (let start' = (case start of None \<Rightarrow> time | Some s \<Rightarrow> if s = 0 then time else s);
          animationPhase = (time - start') / duration;
          animationPhase' = (if animationPhase > 1 then 1 else animationPhase);
          currentAltitude =
            startAltitude + (endAltitude - startAltitude) * easeCubicOut animationPhase';
          currentBearing =
            startBearing + (endBearing - startBearing) * easeCubicOut animationPhase';
          currentPitch = startPitch + (endPitch - startPitch) * easeCubicOut animationPhase';
          correctedPosition =
            computeCameraPosition currentPitch currentBearing targetLngLat currentAltitude
              False previousCameraPosition
      in \<lparr>frame_time = time,
          frame_start = start',
          frame_animationPhase = animationPhase',
          frame_pitch = currentPitch,
          frame_bearing = currentBearing,
          frame_position = fst correctedPosition,
          frame_altitude = currentAltitude,
          frame_cache = snd correctedPosition,
          frame_resolved =
            (if animationPhase' = 1 then Some (currentBearing, currentAltitude) else None)\<rparr>)"

text \<open>
  The driver on the timestamps the host passes to successive animation frames: it runs one
  frame per timestamp until a frame resolves the promise, and requests no frame after that.
  The result is the frames that ran and the value the promise resolved with, \<open>None\<close> while
  it is pending.
\<close>

fun flyInAndRotate_run ::
  "GeoPoint \<Rightarrow> real \<Rightarrow> real \<Rightarrow> real \<Rightarrow> real \<Rightarrow> real \<Rightarrow> real \<Rightarrow> real \<Rightarrow>
   real option \<Rightarrow> GeoPoint option \<Rightarrow> real list \<Rightarrow> FlyInFrame list \<times> (real \<times> real) option" where
  "flyInAndRotate_run targetLngLat duration startAltitude endAltitude startBearing endBearing
     startPitch endPitch start previousCameraPosition [] = ([], None)"
| "flyInAndRotate_run targetLngLat duration startAltitude endAltitude startBearing endBearing
     startPitch endPitch start previousCameraPosition (time # timestamps) =
     (let f = flyInAndRotate_frame targetLngLat duration startAltitude endAltitude startBearing
                endBearing startPitch endPitch start previousCameraPosition time
      in case frame_resolved f of
           Some result \<Rightarrow> ([f], Some result)
         | None \<Rightarrow>
             (case flyInAndRotate_run targetLngLat duration startAltitude endAltitude
                     startBearing endBearing startPitch endPitch
                     (Some (frame_start f)) (frame_cache f) timestamps of
                (frames, result) \<Rightarrow> (f # frames, result)))"

definition flyInAndRotate ::
  "GeoPoint \<Rightarrow> real \<Rightarrow> real \<Rightarrow> real \<Rightarrow> real \<Rightarrow> real \<Rightarrow> real \<Rightarrow> real \<Rightarrow>
   GeoPoint option \<Rightarrow> real list \<Rightarrow> FlyInFrame list \<times> (real \<times> real) option" where
  "flyInAndRotate targetLngLat duration startAltitude endAltitude startBearing endBearing
     startPitch endPitch previousCameraPosition timestamps =
     flyInAndRotate_run targetLngLat duration startAltitude endAltitude startBearing endBearing
       startPitch endPitch None previousCameraPosition timestamps"

section \<open>The geometry library\<close>

text \<open>
  The functions of the library \<^verbatim>\<open>@turf/turf\<close> that the program calls are not part of the
  repository. They are a parameter of the model: a record of functions on the coordinate
  list of a \<^verbatim>\<open>Feature<LineString>\<close>. \<^verbatim>\<open>turf.length\<close> is in kilometres.
\<close>

record Turf =
  turf_simplify :: "Position list \<Rightarrow> real \<Rightarrow> bool \<Rightarrow> Position list"
  turf_length :: "Position list \<Rightarrow> real"
  turf_lineSlice :: "Position \<Rightarrow> Position \<Rightarrow> Position list \<Rightarrow> Position list"
  turf_along :: "Position list \<Rightarrow> real \<Rightarrow> Position"

definition getLineRatio :: "Turf \<Rightarrow> Position list \<Rightarrow> Position \<Rightarrow> real" where
  "getLineRatio turf trackData point =
     (let subLine = turf_lineSlice turf (trackData ! 0) point trackData
      in turf_length turf subLine)"

section \<open>Bearing schedule\<close>

record BearingInterval =
  l :: nat
  lRatio :: real
  r :: nat
  rRatio :: real
  bearing :: real

text \<open>
  The body of \<^verbatim>\<open>coordinates.forEach\<close> in \<^verbatim>\<open>initData\<close>, on the coordinates not yet
  visited, with the variables \<^verbatim>\<open>simplifiedIndex\<close>, \<^verbatim>\<open>lastIndex\<close> and \<^verbatim>\<open>bearingList\<close> of
  the enclosing function. Destructuring \<^verbatim>\<open>simplifiedData.geometry.coordinates[simplifiedIndex]\<close>
  throws a TypeError when the index is past the end.
\<close>

fun initData_forEach ::
  "Turf \<Rightarrow> Position list \<Rightarrow> Position list \<Rightarrow> real \<Rightarrow> Position list \<Rightarrow> nat \<Rightarrow> nat \<Rightarrow> nat \<Rightarrow>
   BearingInterval list \<Rightarrow> error + BearingInterval list" where
  "initData_forEach turf trackData simplifiedData distance [] index simplifiedIndex lastIndex
     bearingList = Inr bearingList"
| "initData_forEach turf trackData simplifiedData distance (coordinate # rest) index
     simplifiedIndex lastIndex bearingList =
     (if length simplifiedData \<le> simplifiedIndex then Inl TypeError
      else if coordinate = simplifiedData ! simplifiedIndex then
        initData_forEach turf trackData simplifiedData distance rest (index + 1)
          (simplifiedIndex + 1) index
          (bearingList @
            [\<lparr>l = lastIndex,
              lRatio = getLineRatio turf trackData (trackData ! lastIndex) / distance,
              r = index,
              rRatio = getLineRatio turf trackData (trackData ! index) / distance,
              bearing = getBearing (simplifiedData ! (simplifiedIndex - 1)) coordinate\<rparr>])
      else
        initData_forEach turf trackData simplifiedData distance rest (index + 1)
          simplifiedIndex lastIndex bearingList)"

text \<open>
  \<^verbatim>\<open>initData\<close> on the imported track: the fields \<^verbatim>\<open>bearingList\<close>, \<^verbatim>\<open>simplifiedData\<close> and
  \<^verbatim>\<open>trackData\<close> of the object it returns, or the error that rejects its promise.
\<close>

definition initData ::
  "Turf \<Rightarrow> Position list \<Rightarrow> error + BearingInterval list \<times> Position list \<times> Position list" where
  "initData turf trackData =
     (let simplifiedData = turf_simplify turf trackData 0.004 True;
          distance = turf_length turf trackData
      in case initData_forEach turf trackData simplifiedData distance trackData 0 1 0 [] of
           Inl e \<Rightarrow> Inl e
         | Inr bearingList \<Rightarrow> Inr (bearingList, simplifiedData, trackData))"

section \<open>Path-follow driver\<close>

text \<open>
  One call of the closure \<^verbatim>\<open>frame\<close> of \<^verbatim>\<open>animatePath\<close> (the variant that projects onto the
  simplified track), from the variables \<^verbatim>\<open>index\<close> and \<^verbatim>\<open>nextBearingIndex\<close>: it resolves
  the promise, or throws, or hands a bearing and a position to the map and leaves new values
  in the two variables. The bearing is \<open>None\<close> when it is \<^verbatim>\<open>undefined\<close>; no position is
  computed from an undefined bearing. \<^verbatim>\<open>computeCameraPosition\<close> is called without
  smoothing, so the stored position is not read and is left out.
\<close>

datatype PathFrame =
    Resolved
  | Threw error
  | Rendered nat nat "real option" "GeoPoint option"

definition animationPhase_at :: "Turf \<Rightarrow> Position list \<Rightarrow> real \<Rightarrow> nat \<Rightarrow> real" where
  "animationPhase_at turf trackData speed index =
     (let distance = turf_length turf trackData
      in speed * real index / (distance * 1000))"

definition animatePath_frame ::
  "Turf \<Rightarrow> real \<Rightarrow> real \<Rightarrow> BearingInterval list \<Rightarrow> Position list \<Rightarrow> real \<Rightarrow> nat \<Rightarrow> nat \<Rightarrow>
   PathFrame" where
  "animatePath_frame turf altitude pitch bearingList trackData speed index nextBearingIndex =
     (let coordinates = trackData;
          distance = turf_length turf trackData;
          animationPhase = animationPhase_at turf trackData speed index
      in if animationPhase > 1 then Resolved
         else
           let alongPath = turf_along turf trackData (distance * animationPhase)
           in if nextBearingIndex = 0 \<or> length bearingList < nextBearingIndex
              then Threw TypeError
              else
                let current = bearingList ! (nextBearingIndex - 1);
                    currentBearing = bearing current;
                    nextBearing =
                      (if nextBearingIndex < length bearingList
                       then Some (bearing (bearingList ! nextBearingIndex)) else None)
                in if length coordinates \<le> l current \<or> length coordinates \<le> r current
                   then Threw TypeError
                   else
                     let startPoint = coordinates ! l current;
                         endPoint = coordinates ! r current
                     in case projectPointToGreatCircle (snd startPoint) (fst startPoint)
                               (snd endPoint) (fst endPoint) (snd alongPath) (fst alongPath) of
                          Inl e \<Rightarrow> Threw e
                        | Inr point \<Rightarrow>
                            let lngLat = \<lparr>lng = snd point, lat = fst point\<rparr>;
                                ratio = 0.2;
                                lRangeRatio =
                                  lRatio current + (rRatio current - lRatio current) * (1 - ratio);
                                bearing' =
                                  (if rRatio current \<le> animationPhase then nextBearing
                                   else if truthy nextBearing \<and> animationPhase < rRatio current \<and>
                                           lRangeRatio \<le> animationPhase
                                   then
                                     (case nextBearing of
                                        None \<Rightarrow> Some currentBearing
                                      | Some nextBearing' \<Rightarrow>
                                          let normalizedTime =
                                                (animationPhase - lRangeRatio) /
                                                (rRatio current - lRangeRatio);
                                              rotation =
                                                normalizeBearing currentBearing nextBearing'
                                          in Some (currentBearing + rotation * normalizedTime))
                                   else Some currentBearing);
                                nextBearingIndex' =
                                  (if rRatio current \<le> animationPhase
                                   then nextBearingIndex + 1 else nextBearingIndex);
                                correctedPosition =
                                  map_option
                                    (\<lambda>b. fst (computeCameraPosition pitch b lngLat altitude
                                                False None))
                                    bearing'
                            in Rendered (index + 1) nextBearingIndex' bearing'
                                 correctedPosition)"

text \<open>
  The driver: frames run until one resolves the promise or throws. A frame that throws
  rejects its own promise and requests no further frame, so the promise of \<^verbatim>\<open>animatePath\<close>
  stays pending. The loop need not end, so the model counts frames down from a bound;
  \<open>Done n\<close> says that the promise resolved after \<open>n\<close> frames were rendered.
\<close>

datatype PathRun = Done nat | Failed error | OutOfFuel

fun animatePath_run ::
  "nat \<Rightarrow> Turf \<Rightarrow> real \<Rightarrow> real \<Rightarrow> BearingInterval list \<Rightarrow> Position list \<Rightarrow> real \<Rightarrow> nat \<Rightarrow> nat \<Rightarrow>
   PathRun" where
  "animatePath_run 0 turf altitude pitch bearingList trackData speed index nextBearingIndex =
     OutOfFuel"
| "animatePath_run (Suc fuel) turf altitude pitch bearingList trackData speed index
     nextBearingIndex =
     (case animatePath_frame turf altitude pitch bearingList trackData speed index
             nextBearingIndex of
        Resolved \<Rightarrow> Done index
      | Threw e \<Rightarrow> Failed e
      | Rendered index' nextBearingIndex' b p \<Rightarrow>
          animatePath_run fuel turf altitude pitch bearingList trackData speed index'
            nextBearingIndex')"

definition animatePath ::
  "nat \<Rightarrow> Turf \<Rightarrow> real \<Rightarrow> real \<Rightarrow> BearingInterval list \<Rightarrow> Position list \<Rightarrow> real \<Rightarrow> PathRun" where
  "animatePath fuel turf altitude pitch bearingList trackData speed =
     animatePath_run fuel turf altitude pitch bearingList trackData speed 0 1"

section \<open>Derived notions\<close>

text \<open>
  The time a fly-in frame measures: its timestamp minus the variable \<^verbatim>\<open>start\<close> as the
  frame leaves it. It is the time since the first frame only as long as \<^verbatim>\<open>start\<close> still
  holds the first timestamp.
\<close>

definition sinceStart :: "FlyInFrame \<Rightarrow> real" where
  "sinceStart f = frame_time f - frame_start f"

text \<open>
  The phase at which the ease window of an interval begins: \<^verbatim>\<open>lRangeRatio\<close> of
  \<^verbatim>\<open>animatePath\<close>, with its \<^verbatim>\<open>ratio\<close> of 0.2.
\<close>

definition easeStart :: "BearingInterval \<Rightarrow> real" where
  "easeStart i = lRatio i + (rRatio i - lRatio i) * (1 - 0.2)"



text \<open>
  A schedule is chained from index \<open>k\<close> when its first interval starts at \<open>k\<close>, every
  interval starts where the one before it ends, and the two ratios of every interval are the
  ratios of its two indices. \<open>endOf\<close> is the index at which a schedule that starts at \<open>k\<close>
  ends, and \<open>ratioAt\<close> is the ratio \<^verbatim>\<open>initData\<close> gives to an index of the track.
\<close>

fun chained :: "(nat \<Rightarrow> real) \<Rightarrow> nat \<Rightarrow> BearingInterval list \<Rightarrow> bool" where
  "chained ratioAt k [] = True"
| "chained ratioAt k (i # rest) =
     (l i = k \<and> lRatio i = ratioAt k \<and> rRatio i = ratioAt (r i) \<and> chained ratioAt (r i) rest)"

definition endOf :: "nat \<Rightarrow> BearingInterval list \<Rightarrow> nat" where
  "endOf k bl = (if bl = [] then k else r (last bl))"

definition ratioAt :: "Turf \<Rightarrow> Position list \<Rightarrow> nat \<Rightarrow> real" where
  "ratioAt turf trackData k =
     getLineRatio turf trackData (trackData ! k) / turf_length turf trackData"

section \<open>Example inputs\<close>

text \<open>
  An instance of the library parameter for lines whose legs all have the same length \<open>km\<close>:
  nothing is simplified away, a slice runs from the first vertex equal to the start to the
  first vertex after it equal to the stop, and the point at a distance is the last vertex at
  or before it. It serves to run the model on the two tracks below, whose legs are quarter
  great circles, about 10000 km each.
\<close>

definition equalLegs :: "real \<Rightarrow> Turf" where
  "equalLegs km =
     \<lparr>turf_simplify = (\<lambda>line tolerance highQuality. line),
      turf_length = (\<lambda>line. km * real (length line - 1)),
      turf_lineSlice = (\<lambda>startPt stopPt line.
         takeWhile (\<lambda>p. p \<noteq> stopPt) (dropWhile (\<lambda>p. p \<noteq> startPt) line) @ [stopPt]),
      turf_along = (\<lambda>line d. line ! min (nat \<lfloor>d / km\<rfloor>) (length line - 1))\<rparr>"

definition quarterTurns :: "Position list" where
  "quarterTurns = [(0, 0), (90, 0), (90, 90)]"

definition quarterTurnsSchedule :: "BearingInterval list" where
  "quarterTurnsSchedule =
     [\<lparr>l = 0, lRatio = 0, r = 1, rRatio = 1 / 2, bearing = 90\<rparr>,
      \<lparr>l = 1, lRatio = 1 / 2, r = 2, rRatio = 1, bearing = 0\<rparr>]"

definition closedTriangle :: "Position list" where
  "closedTriangle = [(0, 0), (90, 0), (90, 90), (0, 0)]"

definition closedTriangleSchedule :: "BearingInterval list" where
  "closedTriangleSchedule =
     [\<lparr>l = 0, lRatio = 0, r = 1, rRatio = 1 / 3, bearing = 90\<rparr>,
      \<lparr>l = 1, lRatio = 1 / 3, r = 2, rRatio = 2 / 3, bearing = 0\<rparr>,
      \<lparr>l = 2, lRatio = 2 / 3, r = 3, rRatio = 0, bearing = 270\<rparr>]"

section \<open>Properties of the geodesy kernel\<close>

lemma degreesToRadians_half_turn: "degreesToRadians (a + 180) = degreesToRadians a + pi"
  by (simp add: degreesToRadians_def add_divide_distrib distrib_right)

lemma degreesToRadians_minus: "degreesToRadians (- a) = - degreesToRadians a"
  by (simp add: degreesToRadians_def)

lemma latLonToCartesian_antipode:
  "latLonToCartesian (- a) (b + 180) = scale3 (- 1) (latLonToCartesian a b)"
  by (simp add: latLonToCartesian_def scale3_def Let_def degreesToRadians_half_turn
      degreesToRadians_minus)

lemma projectPointToGreatCircle_vectors:
  "projectPointToGreatCircle latA lonA latB lonB latC lonC =
     (let n = cross3 (latLonToCartesian latA lonA) (latLonToCartesian latB lonB)
      in if dot3 n n < 1 / 10 ^ 12 then Inl DegenerateGreatCircle
         else case offNormal n (latLonToCartesian latC lonC) of
                (x, y, z) \<Rightarrow> Inr (cartesianToLatLon x y z))"
proof -
  obtain A0 A1 A2 where A: "latLonToCartesian latA lonA = (A0, A1, A2)"
    by (cases "latLonToCartesian latA lonA") auto
  obtain B0 B1 B2 where B: "latLonToCartesian latB lonB = (B0, B1, B2)"
    by (cases "latLonToCartesian latB lonB") auto
  obtain C0 C1 C2 where C: "latLonToCartesian latC lonC = (C0, C1, C2)"
    by (cases "latLonToCartesian latC lonC") auto
  show ?thesis
    unfolding projectPointToGreatCircle_def A B C
    by (simp add: Let_def cross3_def dot3_def offNormal_def unit3_def sub3_def scale3_def)
qed

lemma cross3_self: "cross3 a a = (0, 0, 0)"
  by (cases a) (simp add: cross3_def)

lemma cross3_opposite: "cross3 a (scale3 (- 1) a) = (0, 0, 0)"
  by (cases a) (simp add: cross3_def scale3_def)

lemma projectPointToGreatCircle_degenerate:
  assumes "latLonToCartesian latB lonB = latLonToCartesian latA lonA \<or>
           latLonToCartesian latB lonB = scale3 (- 1) (latLonToCartesian latA lonA)"
  shows "projectPointToGreatCircle latA lonA latB lonB latC lonC = Inl DegenerateGreatCircle"
  using assms
  by (auto simp: projectPointToGreatCircle_vectors cross3_self cross3_opposite dot3_def)

text \<open>
  C3. \<open>projectPointToGreatCircle\<close> throws the degenerate-great-circle error exactly when the
  squared length of the normal \<open>A \<times> B\<close> is below \<open>1e-12\<close>; that is the case when \<open>A\<close> and \<open>B\<close>
  are the same point (so for the arguments \<open>A, A, C\<close>) and when they are antipodal. For every
  other \<open>A\<close>, \<open>B\<close> it returns the latitude and longitude of \<open>C\<close> minus its component along the
  normal, scaled to length one.
\<close>

theorem C3_projectPointToGreatCircle_degenerate:
  "projectPointToGreatCircle latA lonA latB lonB latC lonC =
     (if dot3 (cross3 (latLonToCartesian latA lonA) (latLonToCartesian latB lonB))
              (cross3 (latLonToCartesian latA lonA) (latLonToCartesian latB lonB)) < 1 / 10 ^ 12
      then Inl DegenerateGreatCircle
      else case offNormal (cross3 (latLonToCartesian latA lonA) (latLonToCartesian latB lonB))
                  (latLonToCartesian latC lonC) of
             (x, y, z) \<Rightarrow> Inr (cartesianToLatLon x y z))
   \<and> projectPointToGreatCircle latA lonA latA lonA latC lonC = Inl DegenerateGreatCircle
   \<and> projectPointToGreatCircle latA lonA (- latA) (lonA + 180) latC lonC =
       Inl DegenerateGreatCircle
   \<and> (latLonToCartesian latB lonB = latLonToCartesian latA lonA \<or>
      latLonToCartesian latB lonB = scale3 (- 1) (latLonToCartesian latA lonA) \<longrightarrow>
      projectPointToGreatCircle latA lonA latB lonB latC lonC = Inl DegenerateGreatCircle)"
  using projectPointToGreatCircle_vectors [of latA lonA latB lonB latC lonC]
    projectPointToGreatCircle_degenerate [of latB lonB latA lonA latC lonC]
    projectPointToGreatCircle_degenerate [of latA lonA latA lonA latC lonC]
    projectPointToGreatCircle_degenerate [of "- latA" "lonA + 180" latA lonA latC lonC]
    latLonToCartesian_antipode [of latA lonA]
  by (simp add: Let_def)

theorem C3_projectPointToGreatCircle_degenerate_witness:
  "latLonToCartesian 10 20 = latLonToCartesian 10 20
   \<and> projectPointToGreatCircle 10 20 10 20 30 40 = Inl DegenerateGreatCircle
   \<and> projectPointToGreatCircle 10 20 (- 10) (20 + 180) 30 40 = Inl DegenerateGreatCircle
   \<and> projectPointToGreatCircle 0 0 0 90 0 0 = Inr (0, 0)"
proof -
  have "projectPointToGreatCircle 0 0 0 90 0 0 = Inr (0, 0)"
    using C3_projectPointToGreatCircle_degenerate [of 0 0 0 90 0 0]
    by (simp add: latLonToCartesian_def degreesToRadians_def cross3_def dot3_def offNormal_def
        unit3_def sub3_def scale3_def cartesianToLatLon_def radiansToDegrees_def atan2_def
        Let_def)
  moreover have "projectPointToGreatCircle 10 20 10 20 30 40 = Inl DegenerateGreatCircle
      \<and> projectPointToGreatCircle 10 20 (- 10) (20 + 180) 30 40 = Inl DegenerateGreatCircle"
    using C3_projectPointToGreatCircle_degenerate [of 10 20 10 20 30 40] by blast
  ultimately show ?thesis by blast
qed

section \<open>Properties of the zoom and height conversion\<close>

lemma heightToZoom_formula:
  "heightToZoom h p = log 2 (EARTH_RADIUS / (h * cos (Converter_degreesToRadians p)))"
  by (simp add: heightToZoom_def Converter_degreesToRadians_def)

lemma cos_pitch_pos:
  assumes "0 \<le> p" "p \<le> 89"
  shows "0 < cos (Converter_degreesToRadians p)"
proof -
  have "p * (pi / 180) \<le> 89 * (pi / 180)"
    using assms by (simp add: mult_right_mono)
  also have "\<dots> < pi / 2" using pi_gt_zero by simp
  finally have up: "p * (pi / 180) < pi / 2" .
  have "0 \<le> p * (pi / 180)" using assms by simp
  then have lo: "- (pi / 2) < p * (pi / 180)"
    using pi_gt_zero by linarith
  show ?thesis
    unfolding Converter_degreesToRadians_def by (rule cos_gt_zero_pi [OF lo up])
qed

lemma heightToZoom_zoomToHeight:
  assumes "cos (Converter_degreesToRadians p) \<noteq> 0"
  shows "heightToZoom (zoomToHeight z p) p = z"
proof -
  have "EARTH_RADIUS / (EARTH_RADIUS / 2 powr z) = 2 powr z"
    by (simp add: EARTH_RADIUS_def)
  then show ?thesis
    using assms by (simp add: heightToZoom_def zoomToHeight_def Let_def)
qed

text \<open>
  C8. For a zoom in \<open>[0, 22]\<close> and a pitch in \<open>[0, 89]\<close>, \<open>heightToZoom\<close> undoes
  \<open>zoomToHeight\<close>: the round trip returns the zoom, so it is within \<open>1e-9\<close> of it.
  \<open>heightToZoom\<close> multiplies the height by the cosine of the pitch and takes the binary
  logarithm of \<open>EARTH_RADIUS\<close> over the product.
\<close>

theorem C8_heightToZoom_inverse:
  "0 \<le> z \<Longrightarrow> z \<le> 22 \<Longrightarrow> 0 \<le> p \<Longrightarrow> p \<le> 89 \<Longrightarrow>
     heightToZoom (zoomToHeight z p) p = z
     \<and> \<bar>heightToZoom (zoomToHeight z p) p - z\<bar> \<le> 1 / 10 ^ 9
     \<and> heightToZoom h p = log 2 (EARTH_RADIUS / (h * cos (Converter_degreesToRadians p)))"
  using heightToZoom_zoomToHeight [of p z] cos_pitch_pos [of p] heightToZoom_formula [of h p]
  by simp

theorem C8_heightToZoom_inverse_witness:
  "(0::real) \<le> 12 \<and> (12::real) \<le> 22 \<and> (0::real) \<le> 60 \<and> (60::real) \<le> 89
   \<and> heightToZoom (zoomToHeight 12 60) 60 = 12
   \<and> heightToZoom (zoomToHeight 0 0) 0 = 0"
  using C8_heightToZoom_inverse [of 12 60 1] C8_heightToZoom_inverse [of 0 0 1]
  by simp

section \<open>Properties of the camera projector\<close>

lemma computeCameraPosition_unsmoothed:
  "computeCameraPosition p b t a False prev =
     (rawCameraPosition p b t a, Some (rawCameraPosition p b t a))"
  by (simp add: computeCameraPosition_def rawCameraPosition_def offsetMagnitude_def Let_def)

lemma computeCameraPosition_first:
  "computeCameraPosition p b t a True None =
     (rawCameraPosition p b t a, Some (rawCameraPosition p b t a))"
  by (simp add: computeCameraPosition_def rawCameraPosition_def offsetMagnitude_def Let_def)

lemma computeCameraPosition_smoothed:
  "computeCameraPosition p b t a True (Some q) =
     (\<lparr>lng = lerp (lng (rawCameraPosition p b t a)) (lng q) 0.95,
       lat = lerp (lat (rawCameraPosition p b t a)) (lat q) 0.95\<rparr>,
      Some \<lparr>lng = lerp (lng (rawCameraPosition p b t a)) (lng q) 0.95,
            lat = lerp (lat (rawCameraPosition p b t a)) (lat q) 0.95\<rparr>)"
  by (simp add: computeCameraPosition_def rawCameraPosition_def offsetMagnitude_def Let_def)

text \<open>
  C1. Without smoothing, and with smoothing when nothing is stored yet, the camera position is
  the target shifted by an offset of magnitude \<open>altitude / tan ((90 - pitch) in radians)\<close>: its
  longitude part is the magnitude times \<open>sin (- bearingRad)\<close> divided by
  \<open>111320 * cos (target latitude in radians)\<close> and is added to the target longitude, its
  latitude part is the magnitude times \<open>cos (- bearingRad)\<close> divided by 111320 and is
  subtracted from the target latitude.
\<close>

theorem C1_camera_position_formula:
  "fst (computeCameraPosition p b t a False prev) =
     \<lparr>lng = lng t + (a / tan ((90 - p) * pi / 180)) * sin (- (b * pi / 180)) /
                    (111320 * cos (lat t * pi / 180)),
      lat = lat t - (a / tan ((90 - p) * pi / 180)) * cos (- (b * pi / 180)) / 111320\<rparr>
   \<and> fst (computeCameraPosition p b t a True None) =
       fst (computeCameraPosition p b t a False prev)"
  by (simp add: computeCameraPosition_unsmoothed computeCameraPosition_first
      rawCameraPosition_def offsetMagnitude_def)

text \<open>
  C2. With smoothing and a stored previous position, each coordinate of the result is 0.95
  times the stored coordinate plus 0.05 times the freshly computed one, which is
  \<open>lerp new previous 0.95\<close> with \<open>lerp start end amt = (1 - amt) * start + amt * end\<close>.
\<close>

theorem C2_smoothing_blend:
  "lng (fst (computeCameraPosition p b t a True (Some q))) =
     0.95 * lng q + 0.05 * lng (fst (computeCameraPosition p b t a False prev))
   \<and> lat (fst (computeCameraPosition p b t a True (Some q))) =
     0.95 * lat q + 0.05 * lat (fst (computeCameraPosition p b t a False prev))
   \<and> lng (fst (computeCameraPosition p b t a True (Some q))) =
     lerp (lng (fst (computeCameraPosition p b t a False prev))) (lng q) 0.95
   \<and> lat (fst (computeCameraPosition p b t a True (Some q))) =
     lerp (lat (fst (computeCameraPosition p b t a False prev))) (lat q) 0.95
   \<and> lerp s e amt = (1 - amt) * s + amt * e"
  by (simp add: computeCameraPosition_unsmoothed computeCameraPosition_smoothed lerp_def)

text \<open>
  C10. Every call stores the position it returns, with or without smoothing; so a smoothed
  call that follows any call blends against the position that call returned, and a smoothed
  call with nothing stored returns the unblended position.
\<close>

theorem C10_cache_overwritten:
  "snd (computeCameraPosition p b t a s prev) = Some (fst (computeCameraPosition p b t a s prev))
   \<and> fst (computeCameraPosition p2 b2 t2 a2 True (snd (computeCameraPosition p b t a s prev))) =
       \<lparr>lng = lerp (lng (rawCameraPosition p2 b2 t2 a2))
                    (lng (fst (computeCameraPosition p b t a s prev))) 0.95,
        lat = lerp (lat (rawCameraPosition p2 b2 t2 a2))
                    (lat (fst (computeCameraPosition p b t a s prev))) 0.95\<rparr>
   \<and> fst (computeCameraPosition p b t a True None) = rawCameraPosition p b t a
   \<and> fst (computeCameraPosition p b t a False prev) = rawCameraPosition p b t a"
proof -
  have stored: "snd (computeCameraPosition p b t a s prev) =
                  Some (fst (computeCameraPosition p b t a s prev))"
    by (simp add: computeCameraPosition_def Let_def)
  show ?thesis
    by (simp add: stored computeCameraPosition_smoothed computeCameraPosition_first
        computeCameraPosition_unsmoothed)
qed

section \<open>Properties of the shortest turn\<close>

lemma js_rem_nonneg:
  assumes "0 \<le> a" "0 < n"
  shows "0 \<le> js_rem a n \<and> js_rem a n < n"
proof -
  have q: "0 \<le> a / n" using assms by simp
  have lo: "of_int \<lfloor>a / n\<rfloor> * n \<le> a" by (rule floor_divide_lower [OF assms(2)])
  have up: "a < (of_int \<lfloor>a / n\<rfloor> + 1) * n" by (rule floor_divide_upper [OF assms(2)])
  show ?thesis
    using q lo up by (simp add: js_rem_def algebra_simps)
qed

lemma js_rem_lower:
  assumes "0 < n"
  shows "- n < js_rem a n"
proof (cases "0 \<le> a / n")
  case True
  have "of_int \<lfloor>a / n\<rfloor> * n \<le> a" by (rule floor_divide_lower [OF assms])
  then show ?thesis using True assms by (simp add: js_rem_def algebra_simps)
next
  case False
  have "(of_int \<lceil>a / n\<rceil> - 1) * n < a" by (rule ceiling_divide_lower [OF assms])
  then show ?thesis using False assms by (simp add: js_rem_def algebra_simps)
qed

lemma js_rem_shift: "\<exists>k::int. js_rem a n = a - n * of_int k"
  by (auto simp: js_rem_def)

lemma normalize360:
  "0 \<le> js_rem (js_rem a 360 + 360) 360 \<and> js_rem (js_rem a 360 + 360) 360 < 360
   \<and> (\<exists>k::int. js_rem (js_rem a 360 + 360) 360 = a + 360 * of_int k)"
proof -
  have pos: "0 \<le> js_rem a 360 + 360"
    using js_rem_lower [of 360 a] by simp
  obtain k1 :: int where k1: "js_rem a 360 = a - 360 * of_int k1"
    using js_rem_shift by blast
  obtain k2 :: int where k2: "js_rem (js_rem a 360 + 360) 360 = js_rem a 360 + 360 - 360 * of_int k2"
    using js_rem_shift by blast
  have "js_rem (js_rem a 360 + 360) 360 = a + 360 * of_int (1 - k1 - k2)"
    using k1 k2 by (simp add: algebra_simps)
  moreover have "0 \<le> js_rem (js_rem a 360 + 360) 360 \<and> js_rem (js_rem a 360 + 360) 360 < 360"
    by (rule js_rem_nonneg [OF pos]) simp
  ultimately show ?thesis by blast
qed

lemma normalizeBearing_shortest:
  "- 180 < normalizeBearing c t \<and> normalizeBearing c t \<le> 180
   \<and> (\<exists>k::int. normalizeBearing c t = t - c + 360 * of_int k)"
proof -
  define c' where "c' = js_rem (js_rem c 360 + 360) 360"
  define t' where "t' = js_rem (js_rem t 360 + 360) 360"
  define d1 where "d1 = js_rem (t' - c' + 360) 360"
  have c': "0 \<le> c'" "c' < 360" and t': "0 \<le> t'" "t' < 360"
    using normalize360 [of c] normalize360 [of t] by (simp_all add: c'_def t'_def)
  obtain kc :: int where kc: "c' = c + 360 * of_int kc"
    using normalize360 [of c] unfolding c'_def by blast
  obtain kt :: int where kt: "t' = t + 360 * of_int kt"
    using normalize360 [of t] unfolding t'_def by blast
  have pos: "0 \<le> t' - c' + 360" using c' t' by simp
  have "0 \<le> d1 \<and> d1 < 360"
    unfolding d1_def by (rule js_rem_nonneg [OF pos]) simp
  then have d1: "0 \<le> d1" "d1 < 360" by simp_all
  obtain kd :: int where kd: "d1 = t' - c' + 360 - 360 * of_int kd"
    using js_rem_shift unfolding d1_def by blast
  have e1: "d1 = t - c + 360 * of_int (kt - kc + 1 - kd)"
    using kd kc kt by (simp add: algebra_simps)
  have e2: "d1 - 360 = t - c + 360 * of_int (kt - kc - kd)"
    using kd kc kt by (simp add: algebra_simps)
  have nb: "normalizeBearing c t = (if \<bar>d1\<bar> \<le> \<bar>d1 - 360\<bar> then d1 else d1 - 360)"
    unfolding normalizeBearing_def Let_def d1_def t'_def c'_def by (rule refl)
  show ?thesis
  proof (cases "\<bar>d1\<bar> \<le> \<bar>d1 - 360\<bar>")
    case True
    then have eq: "normalizeBearing c t = d1" using nb by simp
    have "\<exists>k::int. d1 = t - c + 360 * of_int k" using e1 by (rule exI)
    moreover have "- 180 < d1 \<and> d1 \<le> 180" using True d1 by linarith
    ultimately show ?thesis unfolding eq by blast
  next
    case False
    then have eq: "normalizeBearing c t = d1 - 360" using nb by simp
    have "\<exists>k::int. d1 - 360 = t - c + 360 * of_int k" using e2 by (rule exI)
    moreover have "- 180 < d1 - 360 \<and> d1 - 360 \<le> 180" using False d1 by linarith
    ultimately show ?thesis unfolding eq by blast
  qed
qed

text \<open>
  C9. \<open>normalizeBearing 10 350\<close> is \<open>-20\<close>, the turn through north, and not 340.
\<close>

theorem C9_normalizeBearing_10_350:
  "normalizeBearing 10 350 = - 20 \<and> normalizeBearing 10 350 \<noteq> 340"
  by (simp add: normalizeBearing_def js_rem_def Let_def)

section \<open>Properties of the fly-in driver\<close>

lemma easeCubicOut_1: "easeCubicOut 1 = 1"
  by (simp add: easeCubicOut_def)

lemma flyIn_frame_phase:
  assumes "0 < d"
  shows "frame_animationPhase (flyInAndRotate_frame tg d sa ea sb eb sp ep st c time) =
           (if d \<le> sinceStart (flyInAndRotate_frame tg d sa ea sb eb sp ep st c time) then 1
            else sinceStart (flyInAndRotate_frame tg d sa ea sb eb sp ep st c time) / d)"
  using assms
  by (auto simp: flyInAndRotate_frame_def sinceStart_def Let_def field_simps split: option.splits)

lemma flyIn_frame_resolved:
  "frame_resolved (flyInAndRotate_frame tg d sa ea sb eb sp ep st c time) =
     (if frame_animationPhase (flyInAndRotate_frame tg d sa ea sb eb sp ep st c time) = 1
      then Some (eb, ea) else None)"
  by (simp add: flyInAndRotate_frame_def Let_def easeCubicOut_1)

lemma flyIn_frame_final:
  assumes "frame_animationPhase (flyInAndRotate_frame tg d sa ea sb eb sp ep st c time) = 1"
  shows "frame_altitude (flyInAndRotate_frame tg d sa ea sb eb sp ep st c time) = ea"
    and "frame_bearing (flyInAndRotate_frame tg d sa ea sb eb sp ep st c time) = eb"
    and "frame_pitch (flyInAndRotate_frame tg d sa ea sb eb sp ep st c time) = ep"
  using assms by (simp_all add: flyInAndRotate_frame_def Let_def easeCubicOut_1)

lemma flyIn_frame_start_kept:
  "s \<noteq> 0 \<Longrightarrow> frame_start (flyInAndRotate_frame tg d sa ea sb eb sp ep (Some s) c time) = s"
  by (simp add: flyInAndRotate_frame_def Let_def)

lemma flyIn_frame_time:
  "frame_time (flyInAndRotate_frame tg d sa ea sb eb sp ep st c time) = time"
  by (simp add: flyInAndRotate_frame_def Let_def)

lemma flyIn_run_frames:
  assumes "0 < d"
    and "flyInAndRotate_run tg d sa ea sb eb sp ep st c ts = (frames, result)"
  shows "(\<forall>f\<in>set frames. frame_animationPhase f =
             (if d \<le> sinceStart f then 1 else sinceStart f / d))
       \<and> (\<forall>i<length frames. d \<le> sinceStart (frames ! i) \<longrightarrow>
             Suc i = length frames \<and> frame_altitude (frames ! i) = ea \<and>
             frame_bearing (frames ! i) = eb \<and> result = Some (eb, ea))
       \<and> ((\<forall>f\<in>set frames. sinceStart f < d) \<longrightarrow> result = None)"
  using assms(2)
proof (induction ts arbitrary: st c frames result)
  case Nil
  then show ?case by simp
next
  case (Cons time ts)
  let ?f = "flyInAndRotate_frame tg d sa ea sb eb sp ep st c time"
  have ph: "frame_animationPhase ?f = (if d \<le> sinceStart ?f then 1 else sinceStart ?f / d)"
    by (rule flyIn_frame_phase [OF assms(1)])
  have lt1: "\<not> d \<le> sinceStart ?f \<Longrightarrow> frame_animationPhase ?f \<noteq> 1"
    using ph assms(1) by (auto simp: field_simps)
  show ?case
  proof (cases "d \<le> sinceStart ?f")
    case True
    then have one: "frame_animationPhase ?f = 1" using ph by simp
    then have res: "frame_resolved ?f = Some (eb, ea)" by (simp add: flyIn_frame_resolved)
    from Cons.prems res have fr: "frames = [?f]" and r: "result = Some (eb, ea)"
      by (simp_all add: Let_def)
    show ?thesis
      using True one fr r flyIn_frame_final [OF one] by simp
  next
    case False
    then have "frame_animationPhase ?f \<noteq> 1" by (rule lt1)
    then have res: "frame_resolved ?f = None" by (simp add: flyIn_frame_resolved)
    obtain frames' result' where
      rec: "flyInAndRotate_run tg d sa ea sb eb sp ep (Some (frame_start ?f)) (frame_cache ?f) ts
              = (frames', result')"
      by (cases "flyInAndRotate_run tg d sa ea sb eb sp ep (Some (frame_start ?f))
                   (frame_cache ?f) ts") auto
    from Cons.prems res rec have fr: "frames = ?f # frames'" and r: "result = result'"
      by (simp_all add: Let_def)
    note IH = Cons.IH [OF rec]
    have a: "\<forall>f\<in>set frames. frame_animationPhase f =
               (if d \<le> sinceStart f then 1 else sinceStart f / d)"
      using IH ph fr by simp
    have b: "\<forall>i<length frames. d \<le> sinceStart (frames ! i) \<longrightarrow>
               Suc i = length frames \<and> frame_altitude (frames ! i) = ea \<and>
               frame_bearing (frames ! i) = eb \<and> result = Some (eb, ea)"
    proof (intro allI impI)
      fix i assume i: "i < length frames" and e: "d \<le> sinceStart (frames ! i)"
      show "Suc i = length frames \<and> frame_altitude (frames ! i) = ea \<and>
            frame_bearing (frames ! i) = eb \<and> result = Some (eb, ea)"
      proof (cases i)
        case 0
        then show ?thesis using e False fr by simp
      next
        case (Suc j)
        have j: "j < length frames'" using i fr Suc by simp
        have e': "d \<le> sinceStart (frames' ! j)" using e fr Suc by simp
        from IH j e' have "Suc j = length frames' \<and> frame_altitude (frames' ! j) = ea \<and>
            frame_bearing (frames' ! j) = eb \<and> result' = Some (eb, ea)"
          by blast
        moreover have "frames ! i = frames' ! j" "length frames = Suc (length frames')"
          using fr Suc by simp_all
        ultimately show ?thesis using r Suc by metis
      qed
    qed
    have c: "(\<forall>f\<in>set frames. sinceStart f < d) \<longrightarrow> result = None"
      using IH fr r by simp
    show ?thesis using a b c by blast
  qed
qed

lemma flyIn_run_resolves:
  assumes "0 < d" "s \<noteq> 0" "\<exists>t\<in>set ts. d \<le> t - s"
  shows "snd (flyInAndRotate_run tg d sa ea sb eb sp ep (Some s) c ts) = Some (eb, ea)"
  using assms(3)
proof (induction ts arbitrary: c)
  case Nil
  then show ?case by simp
next
  case (Cons time ts)
  let ?f = "flyInAndRotate_frame tg d sa ea sb eb sp ep (Some s) c time"
  have st: "frame_start ?f = s" by (rule flyIn_frame_start_kept [OF assms(2)])
  have el: "sinceStart ?f = time - s" by (simp add: sinceStart_def st flyIn_frame_time)
  have ph: "frame_animationPhase ?f = (if d \<le> sinceStart ?f then 1 else sinceStart ?f / d)"
    by (rule flyIn_frame_phase [OF assms(1)])
  show ?case
  proof (cases "d \<le> time - s")
    case True
    then have "frame_resolved ?f = Some (eb, ea)"
      using ph el by (simp add: flyIn_frame_resolved)
    then show ?thesis by (simp add: Let_def)
  next
    case False
    then have "frame_animationPhase ?f \<noteq> 1"
      using ph el assms(1) by (auto simp: field_simps)
    then have res: "frame_resolved ?f = None" by (simp add: flyIn_frame_resolved)
    from False Cons.prems have "\<exists>t\<in>set ts. d \<le> t - s" by auto
    then have "snd (flyInAndRotate_run tg d sa ea sb eb sp ep (Some s) (frame_cache ?f) ts)
                 = Some (eb, ea)"
      by (rule Cons.IH)
    then show ?thesis using res st by (simp add: Let_def case_prod_beta)
  qed
qed

lemma flyIn_resolves:
  assumes "0 < d" "t0 \<noteq> 0" "\<exists>t\<in>set ts. d \<le> t - t0"
  shows "snd (flyInAndRotate tg d sa ea sb eb sp ep c (t0 # ts)) = Some (eb, ea)"
proof -
  let ?f = "flyInAndRotate_frame tg d sa ea sb eb sp ep None c t0"
  have st: "frame_start ?f = t0" by (simp add: flyInAndRotate_frame_def Let_def)
  have "frame_animationPhase ?f = 0"
    by (simp add: flyInAndRotate_frame_def Let_def)
  then have res: "frame_resolved ?f = None" by (simp add: flyIn_frame_resolved)
  have "snd (flyInAndRotate_run tg d sa ea sb eb sp ep (Some t0) (frame_cache ?f) ts)
          = Some (eb, ea)"
    by (rule flyIn_run_resolves [OF assms])
  then show ?thesis
    using res st by (simp add: flyInAndRotate_def Let_def case_prod_beta)
qed

text \<open>
  While \<^verbatim>\<open>start\<close> holds a first timestamp other than 0 it is never set again, so the time
  a frame measures is the time since the first frame. Then the driver reaches its end state
  when the duration has passed: the frame that reaches it is the last one, it hands the end
  altitude to the map, and the promise resolves with the end bearing and the end altitude.
\<close>

lemma flyIn_run_start_kept:
  assumes "s \<noteq> 0"
    and "flyInAndRotate_run tg d sa ea sb eb sp ep (Some s) c ts = (frames, result)"
  shows "\<forall>f\<in>set frames. frame_start f = s"
  using assms(2)
proof (induction ts arbitrary: c frames result)
  case Nil
  then show ?case by simp
next
  case (Cons time ts)
  let ?f = "flyInAndRotate_frame tg d sa ea sb eb sp ep (Some s) c time"
  have st: "frame_start ?f = s" by (rule flyIn_frame_start_kept [OF assms(1)])
  show ?case
  proof (cases "frame_resolved ?f")
    case (Some res)
    then have "frames = [?f]" using Cons.prems by (simp add: Let_def)
    then show ?thesis using st by simp
  next
    case None
    obtain frames' result' where
      rec: "flyInAndRotate_run tg d sa ea sb eb sp ep (Some s) (frame_cache ?f) ts
              = (frames', result')"
      by (cases "flyInAndRotate_run tg d sa ea sb eb sp ep (Some s) (frame_cache ?f) ts") auto
    then have "frames = ?f # frames'" using Cons.prems None st by (simp add: Let_def)
    then show ?thesis using st Cons.IH [OF rec] by simp
  qed
qed

lemma flyIn_start_is_first_timestamp:
  assumes "t0 \<noteq> 0"
    and "flyInAndRotate tg d sa ea sb eb sp ep c (t0 # rest) = (frames, result)"
  shows "\<forall>f\<in>set frames. frame_start f = t0"
proof -
  let ?f = "flyInAndRotate_frame tg d sa ea sb eb sp ep None c t0"
  have st: "frame_start ?f = t0" by (simp add: flyInAndRotate_frame_def Let_def)
  show ?thesis
  proof (cases "frame_resolved ?f")
    case (Some res)
    then have "frames = [?f]" using assms(2) by (simp add: flyInAndRotate_def Let_def)
    then show ?thesis using st by simp
  next
    case None
    obtain frames' result' where
      rec: "flyInAndRotate_run tg d sa ea sb eb sp ep (Some t0) (frame_cache ?f) rest
              = (frames', result')"
      by (cases "flyInAndRotate_run tg d sa ea sb eb sp ep (Some t0) (frame_cache ?f) rest") auto
    then have "frames = ?f # frames'"
      using assms(2) None st by (simp add: flyInAndRotate_def Let_def)
    then show ?thesis using st flyIn_run_start_kept [OF assms(1) rec] by simp
  qed
qed

lemma flyIn_first_timestamp_nonzero:
  assumes "0 < d" and "t0 \<noteq> 0"
    and "flyInAndRotate tg d sa ea sb eb sp ep c (t0 # rest) = (frames, result)"
  shows "(\<forall>f\<in>set frames. frame_animationPhase f =
             (if d \<le> frame_time f - t0 then 1 else (frame_time f - t0) / d))
       \<and> (\<forall>i<length frames. d \<le> frame_time (frames ! i) - t0 \<longrightarrow>
             Suc i = length frames \<and> frame_altitude (frames ! i) = ea \<and>
             frame_bearing (frames ! i) = eb \<and> result = Some (eb, ea))
       \<and> ((\<exists>t\<in>set rest. d \<le> t - t0) \<longrightarrow> result = Some (eb, ea))"
proof -
  have st: "\<forall>f\<in>set frames. frame_start f = t0"
    by (rule flyIn_start_is_first_timestamp [OF assms(2,3)])
  then have ss: "\<forall>f\<in>set frames. sinceStart f = frame_time f - t0"
    by (simp add: sinceStart_def)
  have run: "flyInAndRotate_run tg d sa ea sb eb sp ep None c (t0 # rest) = (frames, result)"
    using assms(3) by (simp add: flyInAndRotate_def)
  note facts = flyIn_run_frames [OF assms(1) run]
  have a: "\<forall>f\<in>set frames. frame_animationPhase f =
             (if d \<le> frame_time f - t0 then 1 else (frame_time f - t0) / d)"
    using facts ss by simp
  have b: "\<forall>i<length frames. d \<le> frame_time (frames ! i) - t0 \<longrightarrow>
             Suc i = length frames \<and> frame_altitude (frames ! i) = ea \<and>
             frame_bearing (frames ! i) = eb \<and> result = Some (eb, ea)"
  proof (intro allI impI)
    fix i assume i: "i < length frames" and e: "d \<le> frame_time (frames ! i) - t0"
    have "frames ! i \<in> set frames" using i by simp
    then have "d \<le> sinceStart (frames ! i)" using ss e by simp
    then show "Suc i = length frames \<and> frame_altitude (frames ! i) = ea \<and>
             frame_bearing (frames ! i) = eb \<and> result = Some (eb, ea)"
      using facts i by blast
  qed
  have c: "(\<exists>t\<in>set rest. d \<le> t - t0) \<longrightarrow> result = Some (eb, ea)"
    using flyIn_resolves [OF assms(1,2), of rest tg sa ea sb eb sp ep c] assms(3) by auto
  show ?thesis using a b c by blast
qed

text \<open>
  C7. The fly-in driver with \<open>startAltitude = 3000000\<close>, \<open>endAltitude = 1000\<close> and
  \<open>duration = 7000\<close> misses its end state when the first timestamp is 0. \<^verbatim>\<open>if (!start)\<close>
  finds the stored 0 falsy and sets \<^verbatim>\<open>start\<close> again at the second frame. On the timestamps
  0, 3500 and 7000 the third frame runs 7000 after the first, so the duration has passed, but
  its \<^verbatim>\<open>start\<close> is 3500: its phase is 1/2, it hands the altitude 375875 to the map, and the
  promise is still pending after it.
\<close>

theorem C7_flyIn_first_timestamp_zero:
  "map frame_time (fst (flyInAndRotate tg 7000 3000000 1000 sb eb sp ep c [0, 3500, 7000])) =
     [0, 3500, 7000]
   \<and> map frame_start (fst (flyInAndRotate tg 7000 3000000 1000 sb eb sp ep c [0, 3500, 7000])) =
     [0, 3500, 3500]
   \<and> map frame_animationPhase
        (fst (flyInAndRotate tg 7000 3000000 1000 sb eb sp ep c [0, 3500, 7000])) =
     [0, 0, 1 / 2]
   \<and> map frame_altitude
        (fst (flyInAndRotate tg 7000 3000000 1000 sb eb sp ep c [0, 3500, 7000])) =
     [3000000, 3000000, 375875]
   \<and> (7000::real) \<le> 7000 - 0
   \<and> snd (flyInAndRotate tg 7000 3000000 1000 sb eb sp ep c [0, 3500, 7000]) = None"
  by (simp add: flyInAndRotate_def flyInAndRotate_frame_def Let_def easeCubicOut_def)

section \<open>Properties of the bearing schedule\<close>

lemma chained_append:
  "chained f k (xs @ ys) = (chained f k xs \<and> chained f (endOf k xs) ys)"
  by (induction xs arbitrary: k) (auto simp: endOf_def)

lemma chained_hd: "chained f k bl \<Longrightarrow> bl \<noteq> [] \<Longrightarrow> l (hd bl) = k \<and> lRatio (hd bl) = f k"
  by (cases bl) auto

lemma chained_last: "chained f k bl \<Longrightarrow> bl \<noteq> [] \<Longrightarrow> rRatio (last bl) = f (r (last bl))"
  by (induction bl arbitrary: k) auto

lemma chained_contiguous:
  "chained f k bl \<Longrightarrow> Suc i < length bl \<Longrightarrow>
     rRatio (bl ! i) = lRatio (bl ! Suc i) \<and> r (bl ! i) = l (bl ! Suc i)"
proof (induction bl arbitrary: k i)
  case Nil
  then show ?case by simp
next
  case (Cons x bl)
  show ?case
  proof (cases i)
    case 0
    then show ?thesis using Cons.prems by (cases bl) auto
  next
    case (Suc j)
    then show ?thesis using Cons.prems Cons.IH [of "r x" j] by simp
  qed
qed

lemma initData_forEach_chained:
  assumes "initData_forEach turf td sd dst rest index sIdx lastIndex bl0 = Inr bl"
    and "chained (\<lambda>j. getLineRatio turf td (td ! j) / dst) k bl0"
    and "lastIndex = endOf k bl0"
  shows "chained (\<lambda>j. getLineRatio turf td (td ! j) / dst) k bl"
  using assms
proof (induction rest arbitrary: index sIdx lastIndex bl0)
  case Nil
  then show ?case by simp
next
  case (Cons c rest)
  show ?case
  proof (cases "c = sd ! sIdx")
    case True
    let ?e = "\<lparr>l = lastIndex,
              lRatio = getLineRatio turf td (td ! lastIndex) / dst,
              r = index,
              rRatio = getLineRatio turf td (td ! index) / dst,
              bearing = getBearing (sd ! (sIdx - 1)) c\<rparr>"
    from Cons.prems(1) True
    have rec: "initData_forEach turf td sd dst rest (index + 1) (sIdx + 1) index (bl0 @ [?e])
                 = Inr bl"
      by (simp split: if_splits)
    have ch: "chained (\<lambda>j. getLineRatio turf td (td ! j) / dst) k (bl0 @ [?e])"
      using Cons.prems(2,3) by (simp add: chained_append)
    have "index = endOf k (bl0 @ [?e])" by (simp add: endOf_def)
    from Cons.IH [OF rec ch this] show ?thesis .
  next
    case False
    from Cons.prems(1) False
    have rec: "initData_forEach turf td sd dst rest (index + 1) sIdx lastIndex bl0 = Inr bl"
      by (simp split: if_splits)
    from Cons.IH [OF rec Cons.prems(2,3)] show ?thesis .
  qed
qed

lemma initData_forEach_reaches_end:
  assumes "initData_forEach turf td sd dst rest index sIdx lastIndex bl0 = Inr bl"
    and "rest \<noteq> []" and "subseq (drop sIdx sd) rest"
    and "sIdx < length sd" and "last sd = last rest"
  shows "bl \<noteq> [] \<and> r (last bl) = index + length rest - 1"
  using assms
proof (induction rest arbitrary: index sIdx lastIndex bl0)
  case Nil
  then show ?case by simp
next
  case (Cons c rest)
  have dr: "drop sIdx sd = sd ! sIdx # drop (Suc sIdx) sd"
    using Cons.prems(4) by (simp add: Cons_nth_drop_Suc)
  show ?case
  proof (cases "c = sd ! sIdx")
    case True
    let ?e = "\<lparr>l = lastIndex,
              lRatio = getLineRatio turf td (td ! lastIndex) / dst,
              r = index,
              rRatio = getLineRatio turf td (td ! index) / dst,
              bearing = getBearing (sd ! (sIdx - 1)) c\<rparr>"
    from Cons.prems(1,4) True
    have rec: "initData_forEach turf td sd dst rest (index + 1) (sIdx + 1) index (bl0 @ [?e])
                 = Inr bl"
      by simp
    show ?thesis
    proof (cases rest)
      case Nil
      then show ?thesis using rec by auto
    next
      case (Cons c' rest')
      then have ne: "rest \<noteq> []" by simp
      have lt: "sIdx + 1 < length sd"
        using rec Cons by (auto split: if_splits)
      have sub: "subseq (drop (sIdx + 1) sd) rest"
        using \<open>subseq (drop sIdx sd) (c # rest)\<close> dr True by simp
      have la: "last sd = last rest" using \<open>last sd = last (c # rest)\<close> ne by simp
      from Cons.IH [OF rec ne sub lt la] show ?thesis by simp
    qed
  next
    case False
    from Cons.prems(1,4) False
    have rec: "initData_forEach turf td sd dst rest (index + 1) sIdx lastIndex bl0 = Inr bl"
      by simp
    have sub: "subseq (drop sIdx sd) rest"
      using \<open>subseq (drop sIdx sd) (c # rest)\<close> dr False by (simp add: subseq_Cons2_neq)
    have ne: "rest \<noteq> []" using sub dr by auto
    have la: "last sd = last rest" using \<open>last sd = last (c # rest)\<close> ne by simp
    from Cons.IH [OF rec ne sub Cons.prems(4) la] show ?thesis by simp
  qed
qed

lemma subseq_drop_self: "subseq (drop n xs) xs"
  by (metis append_take_drop_id subseq_drop_many subseq_order.order_refl)

lemma initData_schedule:
  assumes "initData turf td = Inr (bl, sd, td')"
  shows "sd = turf_simplify turf td 0.004 True" and "td' = td"
    and "chained (ratioAt turf td) 0 bl"
proof -
  from assms show "sd = turf_simplify turf td 0.004 True" and "td' = td"
    by (auto simp: initData_def Let_def split: sum.splits)
  have f: "ratioAt turf td = (\<lambda>j. getLineRatio turf td (td ! j) / turf_length turf td)"
    by (rule ext) (simp add: ratioAt_def)
  have run: "initData_forEach turf td (turf_simplify turf td 0.004 True) (turf_length turf td)
               td 0 1 0 [] = Inr bl"
    using assms by (auto simp: initData_def Let_def split: sum.splits)
  show "chained (ratioAt turf td) 0 bl"
    unfolding f by (rule initData_forEach_chained [OF run]) (simp_all add: endOf_def)
qed

lemma initData_exhaustive:
  assumes "initData turf td = Inr (bl, sd, td')"
    and "subseq sd td" "2 \<le> length sd" "last sd = last td"
  shows "bl \<noteq> [] \<and> r (last bl) = length td - 1"
proof -
  have sd: "sd = turf_simplify turf td 0.004 True" by (rule initData_schedule(1) [OF assms(1)])
  have run: "initData_forEach turf td sd (turf_length turf td) td 0 1 0 [] = Inr bl"
    using assms(1) by (auto simp: initData_def Let_def split: sum.splits)
  have "sd \<noteq> []" using assms(3) by auto
  then have ne: "td \<noteq> []" using assms(2) by auto
  have sub: "subseq (drop 1 sd) td"
    using subseq_drop_self [of 1 sd] assms(2) by (rule subseq_order.trans)
  have lt: "1 < length sd" using assms(3) by simp
  from initData_forEach_reaches_end [OF run ne sub lt assms(4)] show ?thesis by simp
qed

lemma deg90: "90 * pi / 180 = pi / 2" by simp

lemma getBearing_east: "getBearing (0, 0) (90, 0) = 90"
  by (simp add: getBearing_def Let_def atan2_def js_rem_def)

lemma getBearing_north: "getBearing (90, 0) (90, 90) = 0"
  by (simp add: getBearing_def Let_def atan2_def js_rem_def)

lemma initData_quarterTurns:
  "initData (equalLegs 10000) quarterTurns =
     Inr ([\<lparr>l = 0, lRatio = 0, r = 1, rRatio = 1 / 2, bearing = 90\<rparr>,
           \<lparr>l = 1, lRatio = 1 / 2, r = 2, rRatio = 1, bearing = 0\<rparr>],
          quarterTurns, quarterTurns)"
  by (simp add: initData_def equalLegs_def quarterTurns_def getLineRatio_def Let_def
      getBearing_east getBearing_north)

lemma getBearing_back: "getBearing (90, 90) (0, 0) = 270"
  by (simp add: getBearing_def Let_def atan2_def js_rem_def)

lemma initData_closedTriangle:
  "initData (equalLegs 10000) closedTriangle =
     Inr ([\<lparr>l = 0, lRatio = 0, r = 1, rRatio = 1 / 3, bearing = 90\<rparr>,
           \<lparr>l = 1, lRatio = 1 / 3, r = 2, rRatio = 2 / 3, bearing = 0\<rparr>,
           \<lparr>l = 2, lRatio = 2 / 3, r = 3, rRatio = 0, bearing = 270\<rparr>],
          closedTriangle, closedTriangle)"
  by (simp add: initData_def equalLegs_def closedTriangle_def getLineRatio_def Let_def
      getBearing_east getBearing_north getBearing_back)



lemma project_equator_defined: "\<not> isl (projectPointToGreatCircle 0 0 0 90 latC lonC)"
  by (simp add: projectPointToGreatCircle_def latLonToCartesian_def degreesToRadians_def
      Let_def split: prod.splits)


lemma frame_9:
  "\<exists>pos. animatePath_frame ((equalLegs 10000)\<lparr>turf_along := along\<rparr>) 3000 60
            quarterTurnsSchedule quarterTurns 1000000 9 1 = Rendered 10 1 (Some 90) pos"
  by (simp add: animatePath_frame_def animationPhase_at_def equalLegs_def quarterTurns_def
      quarterTurnsSchedule_def Let_def truthy_def sum.case_eq_if project_equator_defined)

lemma initData_closed_track:
  assumes "initData turf td = Inr (bl, sd, td')" and "bl \<noteq> []"
    and "td ! r (last bl) = td ! 0"
  shows "rRatio (last bl) = lRatio (hd bl)"
proof -
  have ch: "chained (ratioAt turf td) 0 bl" by (rule initData_schedule(3) [OF assms(1)])
  have "rRatio (last bl) = ratioAt turf td (r (last bl))"
    by (rule chained_last [OF ch assms(2)])
  also have "\<dots> = ratioAt turf td 0" using assms(3) by (simp add: ratioAt_def)
  also have "\<dots> = lRatio (hd bl)" using chained_hd [OF ch assms(2)] by simp
  finally show ?thesis .
qed

text \<open>
  In every schedule the precompute returns, each interval ends at the ratio at which the next
  one starts, and the first interval starts at the ratio of the first coordinate of the
  track. When the simplified track is a subsequence of the track with at least two vertices
  that ends at the last point of the track, the schedule is not empty and its last interval
  ends at the ratio of the last coordinate.
\<close>

lemma initData_schedule_contiguous:
  assumes "initData turf td = Inr (bl, sd, td')"
  shows "(\<forall>i. Suc i < length bl \<longrightarrow> rRatio (bl ! i) = lRatio (bl ! Suc i))
       \<and> (bl \<noteq> [] \<longrightarrow>
            lRatio (hd bl) = getLineRatio turf td (td ! 0) / turf_length turf td)
       \<and> (subseq sd td \<and> 2 \<le> length sd \<and> last sd = last td \<longrightarrow>
            bl \<noteq> [] \<and>
            rRatio (last bl) = getLineRatio turf td (last td) / turf_length turf td)"
proof -
  have ch: "chained (ratioAt turf td) 0 bl" by (rule initData_schedule(3) [OF assms])
  have a: "\<forall>i. Suc i < length bl \<longrightarrow> rRatio (bl ! i) = lRatio (bl ! Suc i)"
    using chained_contiguous [OF ch] by blast
  have b: "bl \<noteq> [] \<longrightarrow> lRatio (hd bl) = getLineRatio turf td (td ! 0) / turf_length turf td"
    using chained_hd [OF ch] by (simp add: ratioAt_def)
  have c: "bl \<noteq> [] \<and> rRatio (last bl) = getLineRatio turf td (last td) / turf_length turf td"
    if s: "subseq sd td" "2 \<le> length sd" "last sd = last td"
  proof -
    have ex: "bl \<noteq> [] \<and> r (last bl) = length td - 1"
      by (rule initData_exhaustive [OF assms s])
    then have ne: "bl \<noteq> []" and en: "r (last bl) = length td - 1" by simp_all
    have "sd \<noteq> []" using s(2) by auto
    then have td: "td \<noteq> []" using s(1) by auto
    have "rRatio (last bl) = ratioAt turf td (length td - 1)"
      using chained_last [OF ch ne] en by simp
    also have "\<dots> = getLineRatio turf td (last td) / turf_length turf td"
      using td by (simp add: ratioAt_def last_conv_nth)
    finally show ?thesis using ne by simp
  qed
  show ?thesis using a b c by blast
qed

lemma project_meridian_defined: "\<not> isl (projectPointToGreatCircle 0 90 90 90 latC lonC)"
  by (simp add: projectPointToGreatCircle_def latLonToCartesian_def degreesToRadians_def
      Let_def split: prod.splits)

lemma project_from_pole_defined: "\<not> isl (projectPointToGreatCircle 90 90 0 0 latC lonC)"
  by (simp add: projectPointToGreatCircle_def latLonToCartesian_def degreesToRadians_def
      Let_def split: prod.splits)

lemma closedTriangle_frame_5:
  "animatePath_frame (equalLegs 10000) 3000 60 closedTriangleSchedule closedTriangle 5000000 5 3 =
     Rendered 6 4 None None"
  by (simp add: animatePath_frame_def animationPhase_at_def equalLegs_def closedTriangle_def
      closedTriangleSchedule_def Let_def sum.case_eq_if project_from_pole_defined)

lemma closedTriangle_run:
  "animatePath 8 (equalLegs 10000) 3000 60 closedTriangleSchedule closedTriangle 5000000 =
     Failed TypeError"
  by (simp add: animatePath_def eval_nat_numeral animatePath_frame_def animationPhase_at_def
      equalLegs_def closedTriangle_def closedTriangleSchedule_def Let_def truthy_def
      sum.case_eq_if project_equator_defined project_meridian_defined
      project_from_pole_defined)

text \<open>
  C5. On a closed track the schedule is not exhaustive. The track \<open>closedTriangle\<close> runs from a
  point on the equator a quarter turn east, up to the pole and back to its first point; it
  has four points and nothing is simplified away. The precompute returns three intervals,
  each ending where the next one starts, and the first starts at ratio 0. The ratio it gives
  to the end of the last interval is the ratio of the coordinate at that index, which is the
  first coordinate again: the last interval ends at ratio 0 and not at 1. No behaviour of
  the library makes the schedule of this track start at 0 and end at 1. Played back at a
  sixth of the track per frame, the schedule is used up at frame counter 5, where the frame
  hands an undefined bearing to the map, and the frame at counter 6 throws.
\<close>

theorem C5_closed_track_last_ratio:
  "initData (equalLegs 10000) closedTriangle =
     Inr (closedTriangleSchedule, closedTriangle, closedTriangle)
   \<and> 2 \<le> length closedTriangle
   \<and> 2 \<le> length (turf_simplify (equalLegs 10000) closedTriangle 0.004 True)
   \<and> rRatio (closedTriangleSchedule ! 0) = lRatio (closedTriangleSchedule ! 1)
   \<and> rRatio (closedTriangleSchedule ! 1) = lRatio (closedTriangleSchedule ! 2)
   \<and> lRatio (hd closedTriangleSchedule) = 0
   \<and> rRatio (last closedTriangleSchedule) = 0
   \<and> \<not> (\<exists>turf bl sd td'. initData turf closedTriangle = Inr (bl, sd, td') \<and>
            subseq sd closedTriangle \<and> 2 \<le> length sd \<and> last sd = last closedTriangle \<and>
            lRatio (hd bl) = 0 \<and> \<bar>rRatio (last bl) - 1\<bar> < 1)
   \<and> animatePath_frame (equalLegs 10000) 3000 60 closedTriangleSchedule closedTriangle
        5000000 5 3 = Rendered 6 4 None None
   \<and> animatePath 8 (equalLegs 10000) 3000 60 closedTriangleSchedule closedTriangle 5000000 =
        Failed TypeError"
proof -
  have run: "initData (equalLegs 10000) closedTriangle =
               Inr (closedTriangleSchedule, closedTriangle, closedTriangle)"
    using initData_closedTriangle by (simp add: closedTriangleSchedule_def)
  have never: "\<not> (\<exists>turf bl sd td'. initData turf closedTriangle = Inr (bl, sd, td') \<and>
            subseq sd closedTriangle \<and> 2 \<le> length sd \<and> last sd = last closedTriangle \<and>
            lRatio (hd bl) = 0 \<and> \<bar>rRatio (last bl) - 1\<bar> < 1)"
  proof
    assume "\<exists>turf bl sd td'. initData turf closedTriangle = Inr (bl, sd, td') \<and>
            subseq sd closedTriangle \<and> 2 \<le> length sd \<and> last sd = last closedTriangle \<and>
            lRatio (hd bl) = 0 \<and> \<bar>rRatio (last bl) - 1\<bar> < 1"
    then obtain turf bl sd td' where
      i: "initData turf closedTriangle = Inr (bl, sd, td')"
      and s: "subseq sd closedTriangle" "2 \<le> length sd" "last sd = last closedTriangle"
      and z: "lRatio (hd bl) = 0" and o: "\<bar>rRatio (last bl) - 1\<bar> < 1"
      by blast
    have ex: "bl \<noteq> [] \<and> r (last bl) = length closedTriangle - 1"
      by (rule initData_exhaustive [OF i s])
    then have "closedTriangle ! r (last bl) = closedTriangle ! 0"
      by (simp add: closedTriangle_def)
    then have "rRatio (last bl) = lRatio (hd bl)"
      using initData_closed_track [OF i] ex by blast
    then show False using z o by simp
  qed
  have vals: "2 \<le> length closedTriangle"
    "2 \<le> length (turf_simplify (equalLegs 10000) closedTriangle 0.004 True)"
    "rRatio (closedTriangleSchedule ! 0) = lRatio (closedTriangleSchedule ! 1)"
    "rRatio (closedTriangleSchedule ! 1) = lRatio (closedTriangleSchedule ! 2)"
    "lRatio (hd closedTriangleSchedule) = 0"
    "rRatio (last closedTriangleSchedule) = 0"
    by (simp_all add: closedTriangle_def closedTriangleSchedule_def equalLegs_def)
  show ?thesis
    using run never vals closedTriangle_frame_5 closedTriangle_run by blast
qed

section \<open>Properties of the path-follow driver\<close>


lemma animatePath_frame_Resolved_iff:
  "animatePath_frame turf a p bl td sp i n = Resolved \<longleftrightarrow> 1 < animationPhase_at turf td sp i"
  by (auto simp: animatePath_frame_def Let_def split: sum.splits)









lemma getBearing_due_north:
  assumes "a < b" "b - a < 180"
  shows "getBearing (x, a) (x, b) = 0"
proof -
  let ?a = "a * (pi / 180)" and ?b = "b * (pi / 180)"
  have "0 < (b - a) * (pi / 180)" using assms(1) pi_gt_zero by simp
  then have lo: "0 < ?b - ?a" by (simp add: algebra_simps)
  have "(b - a) * (pi / 180) < 180 * (pi / 180)"
    using assms(2) pi_gt_zero by (simp only: mult_strict_right_mono divide_pos_pos zero_less_numeral)
  then have up: "?b - ?a < pi" by (simp add: algebra_simps)
  have "0 < sin (?b - ?a)" by (rule sin_gt_zero [OF lo up])
  then have pos: "0 < cos ?a * sin ?b - sin ?a * cos ?b"
    by (simp add: sin_diff mult.commute)
  show ?thesis
    using pos by (simp add: getBearing_def Let_def atan2_def js_rem_def)
qed

text \<open>
  C4. The ease window is skipped when the next interval heads due north. On the track
  \<open>quarterTurns\<close> the precompute gives the first interval the bearing 90 and the ratios 0 and
  1/2, and the second interval the bearing 0. At frame counter 9 with a speed of 1000000 the
  phase is 0.45, inside the ease window of the first interval, which begins at 0.4 and ends
  at 0.5. Whatever point the library returns along the track, the frame hands the bearing 90
  of the current interval to the map; the blend toward the next interval's bearing is 45.
\<close>

theorem C4_ease_window_skipped_toward_north:
  "initData (equalLegs 10000) quarterTurns =
     Inr (quarterTurnsSchedule, quarterTurns, quarterTurns)
   \<and> animationPhase_at ((equalLegs 10000)\<lparr>turf_along := along\<rparr>) quarterTurns 1000000 9 = 0.45
   \<and> easeStart (quarterTurnsSchedule ! 0) = 0.4
   \<and> rRatio (quarterTurnsSchedule ! 0) = 0.5
   \<and> bearing (quarterTurnsSchedule ! 0) = 90
   \<and> bearing (quarterTurnsSchedule ! 1) = 0
   \<and> (\<exists>pos. animatePath_frame ((equalLegs 10000)\<lparr>turf_along := along\<rparr>) 3000 60
               quarterTurnsSchedule quarterTurns 1000000 9 1 = Rendered 10 1 (Some 90) pos)
   \<and> bearing (quarterTurnsSchedule ! 0) +
       normalizeBearing (bearing (quarterTurnsSchedule ! 0)) (bearing (quarterTurnsSchedule ! 1)) *
       ((0.45 - easeStart (quarterTurnsSchedule ! 0)) /
        (rRatio (quarterTurnsSchedule ! 0) - easeStart (quarterTurnsSchedule ! 0))) = 45"
proof -
  have run: "initData (equalLegs 10000) quarterTurns =
               Inr (quarterTurnsSchedule, quarterTurns, quarterTurns)"
    using initData_quarterTurns by (simp add: quarterTurnsSchedule_def)
  have ph: "animationPhase_at ((equalLegs 10000)\<lparr>turf_along := along\<rparr>) quarterTurns 1000000 9
              = 0.45"
    by (simp add: animationPhase_at_def equalLegs_def quarterTurns_def)
  have turn: "normalizeBearing 90 0 = - 90"
    by (simp add: normalizeBearing_def js_rem_def Let_def)
  have vals: "easeStart (quarterTurnsSchedule ! 0) = 0.4" "rRatio (quarterTurnsSchedule ! 0) = 0.5"
    "bearing (quarterTurnsSchedule ! 0) = 90" "bearing (quarterTurnsSchedule ! 1) = 0"
    by (simp_all add: quarterTurnsSchedule_def easeStart_def)
  have blend: "bearing (quarterTurnsSchedule ! 0) +
       normalizeBearing (bearing (quarterTurnsSchedule ! 0)) (bearing (quarterTurnsSchedule ! 1)) *
       ((0.45 - easeStart (quarterTurnsSchedule ! 0)) /
        (rRatio (quarterTurnsSchedule ! 0) - easeStart (quarterTurnsSchedule ! 0))) = 45"
    unfolding vals turn by simp
  show ?thesis
    using run ph vals blend frame_9 [of along] by blast
qed




lemma ceil_frames_short:
  assumes "0 < turf_length turf td"
  shows "nat \<lceil>turf_length turf td * 1000 / (turf_length turf td * 500)\<rceil> = 2"
    and "animationPhase_at turf td (turf_length turf td * 500) 2 = 1"
    and "animatePath_frame turf a p bl td (turf_length turf td * 500) 2 n \<noteq> Resolved"
proof -
  show "nat \<lceil>turf_length turf td * 1000 / (turf_length turf td * 500)\<rceil> = 2"
    using assms by simp
  show ph: "animationPhase_at turf td (turf_length turf td * 500) 2 = 1"
    using assms by (simp add: animationPhase_at_def)
  show "animatePath_frame turf a p bl td (turf_length turf td * 500) 2 n \<noteq> Resolved"
    using ph by (simp add: animatePath_frame_Resolved_iff)
qed


end
